theory Spec2Isabelle
  imports Complex_Main "HOL-Library.Multiset" "HOL-Library.Char_ord" "HOL-Library.List_Lexorder"
begin

section \<open>Numbers as pandas and numpy see them\<close>

text \<open>
  A numeric cell of a DataFrame is a float: a number, an infinity, or NaN. Numbers are
  idealised as exact rationals (binary rounding of float64 is not modelled); the
  infinities and NaN are kept, because pandas division by zero yields them instead of
  raising, and because \<open>pd.to_numeric(..., errors='coerce')\<close> turns every cell it cannot
  read (SQL NULL, text that is not a number) into NaN. A cell is identified with what
  \<open>pd.to_numeric(..., errors='coerce')\<close> reads from it, so that call is the identity on
  this representation and only the \<open>fillna\<close> that follows it is written out.
\<close>

datatype fl = NInf | Fin rat | PInf | NaN

text \<open>The order numpy sorts floats by: increasing, with NaN after every number.\<close>

fun fl_rank :: "fl \<Rightarrow> nat" where
  "fl_rank NInf = 0"
| "fl_rank (Fin _) = 1"
| "fl_rank PInf = 2"
| "fl_rank NaN = 3"

fun fl_le :: "fl \<Rightarrow> fl \<Rightarrow> bool" where
  "fl_le (Fin a) (Fin b) = (a \<le> b)"
| "fl_le x y = (fl_rank x \<le> fl_rank y)"

instantiation fl :: linorder
begin

definition less_eq_fl :: "fl \<Rightarrow> fl \<Rightarrow> bool" where
  "less_eq_fl x y = fl_le x y"

definition less_fl :: "fl \<Rightarrow> fl \<Rightarrow> bool" where
  "less_fl x y = (fl_le x y \<and> \<not> fl_le y x)"

instance
proof
  fix x y z :: fl
  show "(x < y) = (x \<le> y \<and> \<not> y \<le> x)"
    by (simp add: less_fl_def less_eq_fl_def)
  show "x \<le> x"
    by (cases x) (simp_all add: less_eq_fl_def)
  show "x \<le> y \<Longrightarrow> y \<le> z \<Longrightarrow> x \<le> z"
    by (cases x; cases y; cases z) (simp_all add: less_eq_fl_def)
  show "x \<le> y \<Longrightarrow> y \<le> x \<Longrightarrow> x = y"
    by (cases x; cases y) (simp_all add: less_eq_fl_def)
  show "x \<le> y \<or> y \<le> x"
    by (cases x; cases y) (auto simp add: less_eq_fl_def)
qed

end

text \<open>
  The comparisons of IEEE arithmetic, which the Python operators \<open>>\<close> and \<open>>=\<close> are:
  every comparison with NaN is false.
\<close>

definition fl_gt :: "fl \<Rightarrow> fl \<Rightarrow> bool" where
  "fl_gt x y = (x \<noteq> NaN \<and> y \<noteq> NaN \<and> y < x)"

text \<open>\<open>Series.fillna(0)\<close> on one cell.\<close>

fun fillna0 :: "fl \<Rightarrow> fl" where
  "fillna0 NaN = Fin 0"
| "fillna0 x = x"

text \<open>
  True division \<open>a / b\<close> of two float cells. Nothing raises: a number divided by zero is
  an infinity of its sign, and \<open>0 / 0\<close> is NaN (pandas evaluates the division with
  numpy's warnings silenced). Zero is unsigned here.
\<close>

fun fl_neg :: "fl \<Rightarrow> fl" where
  "fl_neg NInf = PInf"
| "fl_neg PInf = NInf"
| "fl_neg (Fin a) = Fin (- a)"
| "fl_neg NaN = NaN"

fun truediv :: "fl \<Rightarrow> fl \<Rightarrow> fl" where
  "truediv NaN _ = NaN"
| "truediv _ NaN = NaN"
| "truediv (Fin a) (Fin b) =
     (if b \<noteq> 0 then Fin (a / b)
      else if 0 < a then PInf else if a < 0 then NInf else NaN)"
| "truediv (Fin a) _ = Fin 0"
| "truediv x (Fin b) = (if 0 \<le> b then x else fl_neg x)"
| "truediv _ _ = NaN"

text \<open>The product \<open>x * 100\<close>.\<close>

fun times100 :: "fl \<Rightarrow> fl" where
  "times100 (Fin a) = Fin (a * 100)"
| "times100 x = x"

text \<open>
  \<open>numpy.round(x, 1)\<close>: the cell is scaled by ten, rounded to the nearest integer with
  ties going to the even one (\<open>rint\<close>), and scaled back.
\<close>

definition rint :: "rat \<Rightarrow> int" where
  "rint x =
     (let f = \<lfloor>x\<rfloor>; d = x - of_int f
      in if d < 1 / 2 then f else if 1 / 2 < d then f + 1
         else if even f then f else f + 1)"

definition round_half_even1 :: "rat \<Rightarrow> rat" where
  "round_half_even1 x = of_int (rint (x * 10)) / 10"

fun round1 :: "fl \<Rightarrow> fl" where
  "round1 (Fin a) = Fin (round_half_even1 a)"
| "round1 x = x"

text \<open>\<open>numpy.where(cond, a, b)\<close> on one position: both \<open>a\<close> and \<open>b\<close> are already computed.\<close>

definition np_where :: "bool \<Rightarrow> fl \<Rightarrow> fl \<Rightarrow> fl" where
  "np_where c a b = (if c then a else b)"

section \<open>The two relations\<close>

text \<open>
  A DataFrame is its list of column names and its rows. A row of \<open>model_stats\<close> has a field
  for every column the programs read; a field whose column is absent from \<open>columns\<close>
  carries no information, and the programs test for the column before they read it.
  \<open>DataFrame.empty\<close> holds when either axis has length zero.
\<close>

record 'r frame =
  columns :: "string list"
  rows :: "'r list"

definition empty_frame :: "'r frame" where
  "empty_frame = \<lparr>columns = [], rows = []\<rparr>"

definition is_empty :: "'r frame \<Rightarrow> bool" where
  "is_empty df = (rows df = [] \<or> columns df = [])"

definition has_column :: "string \<Rightarrow> 'r frame \<Rightarrow> bool" where
  "has_column c df = (c \<in> set (columns df))"

text \<open>Assigning a column: \<open>df[c] = ...\<close> rewrites the rows and appends the name if new.\<close>

definition assign_column :: "string \<Rightarrow> ('r \<Rightarrow> 'r) \<Rightarrow> 'r frame \<Rightarrow> 'r frame" where
  "assign_column c f df =
     \<lparr>columns = (if c \<in> set (columns df) then columns df else columns df @ [c]),
      rows = map f (rows df)\<rparr>"

record model_stat =
  model_id :: string
  percentage_correct :: fl
  avg_prompt_eval_per_second :: fl
  avg_tokens_per_second :: fl
  total_questions :: fl
  correct_answers :: fl

section \<open>Deriving \<open>percentage_correct\<close> (graph\_stats.py, \<open>main\<close>, lines 517--528)\<close>

text \<open>
  The cell \<open>np.where(total_questions > 0, (correct_answers / total_questions) * 100,
  0).round(1)\<close> of one row, after both operands went through \<open>fillna(0)\<close>.
\<close>

definition derived_percentage :: "fl \<Rightarrow> fl \<Rightarrow> fl" where
  "derived_percentage ca tq =
     round1 (np_where (fl_gt tq (Fin 0)) (times100 (truediv ca tq)) (Fin 0))"

definition derive_percentage_correct :: "model_stat frame \<Rightarrow> model_stat frame" where
  "derive_percentage_correct df =
     (let df1 = assign_column ''correct_answers''
                  (\<lambda>r. r\<lparr>correct_answers := fillna0 (correct_answers r)\<rparr>) df;
          df2 = assign_column ''total_questions''
                  (\<lambda>r. r\<lparr>total_questions := fillna0 (total_questions r)\<rparr>) df1
      in assign_column ''percentage_correct''
           (\<lambda>r. r\<lparr>percentage_correct :=
                     derived_percentage (correct_answers r) (total_questions r)\<rparr>) df2)"



section \<open>Sorting a frame (pandas \<open>sort_values\<close>)\<close>

text \<open>
  \<open>df.sort_values(col, ascending=False)\<close> is called with the default \<open>kind='quicksort'\<close>
  and \<open>na_position='last'\<close>. pandas documents the result as ordered by the column,
  descending, with the NaN rows last, and documents that only the kinds \<open>mergesort\<close> and
  \<open>stable\<close> keep the order of rows with equal keys. The positions it picks (its indexer)
  are therefore a parameter \<open>ix\<close> of every function that sorts, bound by that contract
  alone: a rearrangement of the row positions whose keys are in descending order, NaN
  last.
\<close>

definition desc_nan_last :: "fl \<Rightarrow> fl \<Rightarrow> bool" where
  "desc_nan_last a b = (b = NaN \<or> (a \<noteq> NaN \<and> b \<le> a))"

definition sort_contract :: "(fl list \<Rightarrow> nat list) \<Rightarrow> bool" where
  "sort_contract ix =
     (\<forall>ks. mset (ix ks) = mset [0..<length ks] \<and>
           sorted_wrt (\<lambda>i j. desc_nan_last (ks ! i) (ks ! j)) (ix ks))"

definition sort_rows_desc :: "(fl list \<Rightarrow> nat list) \<Rightarrow> ('r \<Rightarrow> fl) \<Rightarrow> 'r list \<Rightarrow> 'r list" where
  "sort_rows_desc ix key xs = map (\<lambda>i. xs ! i) (ix (map key xs))"

definition sort_values_desc :: "(fl list \<Rightarrow> nat list) \<Rightarrow> ('r \<Rightarrow> fl) \<Rightarrow> 'r frame \<Rightarrow> 'r frame" where
  "sort_values_desc ix key df = df\<lparr>rows := sort_rows_desc ix key (rows df)\<rparr>"

definition head_df :: "nat \<Rightarrow> 'r frame \<Rightarrow> 'r frame" where
  "head_df n df = df\<lparr>rows := take n (rows df)\<rparr>"

text \<open>
  Two indexers that meet the contract, both insertion sorts on the negated key: the first
  keeps rows with equal keys in their input order, the second reverses them.
\<close>

fun desc_key :: "fl \<Rightarrow> fl" where
  "desc_key NaN = NaN"
| "desc_key x = fl_neg x"

definition stable_indexer :: "fl list \<Rightarrow> nat list" where
  "stable_indexer ks = sort_key (\<lambda>i. desc_key (ks ! i)) [0..<length ks]"


section \<open>The overall correctness bar chart\<close>

text \<open>
  What a chart function did: it printed a diagnostic and returned without a chart, or it
  drew the chart from the rows given. A Python exception that the function lets escape is
  the left summand of its result.
\<close>

datatype exn = KeyError string | IndexError | DatabaseError string | OtherError string

datatype 'a chart = Skipped string | Drawn 'a


definition TOP_N_MODELS_PER_CATEGORY :: nat where
  "TOP_N_MODELS_PER_CATEGORY = 15"

definition MIN_QUESTIONS_FOR_CATEGORY_PLOT :: nat where
  "MIN_QUESTIONS_FOR_CATEGORY_PLOT = 3"

text \<open>
  Lines 98 and 100 of graph\_stats.py (140 and 143 of igraph\_stats.py): sort by
  \<open>percentage_correct\<close>, descending, and keep the first \<open>n\<close> rows.
\<close>

definition overall_top :: "(fl list \<Rightarrow> nat list) \<Rightarrow> nat \<Rightarrow> model_stat frame \<Rightarrow> model_stat frame" where
  "overall_top ix n df = head_df n (sort_values_desc ix percentage_correct df)"


text \<open>
  igraph\_stats.py, \<open>plot_overall_model_correctness_bar\<close>, with its parameters \<open>top_n\<close> and
  \<open>selected_models\<close>. \<open>if selected_models:\<close> holds for a list that is neither \<open>None\<close> nor
  empty. A message box stands where the batch script prints.
\<close>

definition truthy :: "string list option \<Rightarrow> bool" where
  "truthy sel = (case sel of None \<Rightarrow> False | Some ms \<Rightarrow> ms \<noteq> [])"

definition isin :: "string \<Rightarrow> string list option \<Rightarrow> bool" where
  "isin m sel = (case sel of None \<Rightarrow> False | Some ms \<Rightarrow> m \<in> set ms)"

definition filter_df :: "('r \<Rightarrow> bool) \<Rightarrow> 'r frame \<Rightarrow> 'r frame" where
  "filter_df p df = df\<lparr>rows := filter p (rows df)\<rparr>"

definition igraph_plot_overall_model_correctness_bar ::
  "(fl list \<Rightarrow> nat list) \<Rightarrow> model_stat frame \<Rightarrow> nat \<Rightarrow> string list option
     \<Rightarrow> exn + model_stat list chart" where
  "igraph_plot_overall_model_correctness_bar ix df_model_stats top_n selected_models =
     (if is_empty df_model_stats \<or> \<not> has_column ''percentage_correct'' df_model_stats then
        Inr (Skipped ''Model stats data is empty or missing 'percentage_correct'.'')
      else if truthy selected_models \<and> \<not> has_column ''model_id'' df_model_stats then
        Inl (KeyError ''model_id'')
      else
        let df_to_plot =
              (if truthy selected_models
               then filter_df (\<lambda>r. isin (model_id r) selected_models) df_model_stats
               else df_model_stats)
        in if truthy selected_models \<and> is_empty df_to_plot then
             Inr (Skipped ''None of the selected models found in the data.'')
           else
             let df_sorted =
                   (if \<not> truthy selected_models then overall_top ix top_n df_to_plot
                    else sort_values_desc ix percentage_correct df_to_plot)
             in if is_empty df_sorted then
                  Inr (Skipped ''No models found after filtering/top_n for correctness bar.'')
                else if \<not> has_column ''model_id'' df_sorted then Inl (KeyError ''model_id'')
                else Inr (Drawn (rows df_sorted)))"


section \<open>Benchmark runs and the per-category aggregate\<close>

text \<open>
  A row of \<open>benchmark_runs\<close>. \<open>model_id\<close> and \<open>category\<close> may be SQL NULL; the batch
  script and \<open>load_db\<close> replace a NULL category by \<open>'Uncategorized'\<close>.
\<close>

record run =
  run_model_id :: "string option"
  category :: "string option"
  correct :: fl

text \<open>\<open>df_runs['correct'] = pd.to_numeric(df_runs['correct'], errors='coerce').fillna(0)\<close>\<close>

definition coerce_correct :: "run frame \<Rightarrow> run frame" where
  "coerce_correct df_runs =
     assign_column ''correct'' (\<lambda>r. r\<lparr>correct := fillna0 (correct r)\<rparr>) df_runs"

text \<open>
  \<open>df['category'] = df['category'].fillna('Uncategorized').astype(str)\<close>
\<close>

definition fill_category :: "run frame \<Rightarrow> run frame" where
  "fill_category df_runs =
     assign_column ''category''
       (\<lambda>r. r\<lparr>category := Some (case category r of None \<Rightarrow> ''Uncategorized'' | Some c \<Rightarrow> c)\<rparr>)
       df_runs"

text \<open>Float addition, and the aggregations \<open>sum\<close> and \<open>count\<close>, which both pass over NaN.\<close>

fun fl_add :: "fl \<Rightarrow> fl \<Rightarrow> fl" where
  "fl_add NaN _ = NaN"
| "fl_add _ NaN = NaN"
| "fl_add (Fin a) (Fin b) = Fin (a + b)"
| "fl_add PInf NInf = NaN"
| "fl_add NInf PInf = NaN"
| "fl_add PInf _ = PInf"
| "fl_add _ PInf = PInf"
| "fl_add NInf _ = NInf"
| "fl_add _ NInf = NInf"

definition series_sum :: "fl list \<Rightarrow> fl" where
  "series_sum xs = fold (\<lambda>x acc. fl_add acc x) (filter (\<lambda>x. x \<noteq> NaN) xs) (Fin 0)"

definition series_count :: "fl list \<Rightarrow> nat" where
  "series_count xs = length (filter (\<lambda>x. x \<noteq> NaN) xs)"

text \<open>
  \<open>groupby('model_id').agg(correct_answers=('correct', 'sum'), total_questions=('correct',
  'count')).reset_index()\<close>: one row per model id that occurs, in sorted order of the ids;
  rows whose \<open>model_id\<close> is NULL belong to no group.
\<close>

record model_count =
  agg_model_id :: string
  agg_correct_answers :: fl
  agg_total_questions :: nat

record model_pct = model_count +
  agg_percentage_correct :: fl

definition group_keys :: "run list \<Rightarrow> string list" where
  "group_keys rs = sort (remdups (List.map_filter run_model_id rs))"

definition groupby_model_id :: "run list \<Rightarrow> model_count list" where
  "groupby_model_id rs =
     map (\<lambda>m. let g = map correct (filter (\<lambda>r. run_model_id r = Some m) rs)
              in \<lparr>agg_model_id = m, agg_correct_answers = series_sum g,
                  agg_total_questions = series_count g\<rparr>)
       (group_keys rs)"

text \<open>
  \<open>model_agg['percentage_correct'] = (model_agg['correct_answers'] /
  model_agg['total_questions']) * 100\<close>
\<close>

definition with_percentage :: "model_count \<Rightarrow> model_pct" where
  "with_percentage a =
     \<lparr>agg_model_id = agg_model_id a, agg_correct_answers = agg_correct_answers a,
      agg_total_questions = agg_total_questions a,
      agg_percentage_correct =
        times100 (truediv (agg_correct_answers a) (Fin (of_nat (agg_total_questions a))))\<rparr>"

text \<open>
  graph\_stats.py, the body of the loop of \<open>plot_top_models_for_specific_categories\<close> for one
  category (lines 445--496), over the rows of \<open>df_runs\<close> after \<open>correct\<close> was coerced. The
  module constants \<open>MIN_QUESTIONS_FOR_CATEGORY_PLOT\<close> and \<open>TOP_N_MODELS_PER_CATEGORY\<close> are the
  parameters \<open>min_q\<close> and \<open>top_n\<close>.
\<close>

definition quoted :: "string \<Rightarrow> string" where
  "quoted s = [CHR 0x27] @ s @ [CHR 0x27]"

definition category_chart ::
  "(fl list \<Rightarrow> nat list) \<Rightarrow> nat \<Rightarrow> nat \<Rightarrow> run list \<Rightarrow> string \<Rightarrow> model_pct list chart" where
  "category_chart ix min_q top_n runs cat =
     (let df_category_data = filter (\<lambda>r. category r = Some cat) runs
      in if df_category_data = [] then Skipped (''No data for category: '' @ cat)
         else
           let model_agg = filter (\<lambda>a. min_q \<le> agg_total_questions a)
                             (groupby_model_id df_category_data)
           in if model_agg = [] then
                Skipped (''Not enough model data (after MIN_QUESTIONS_FOR_CATEGORY_PLOT) for category ''
                         @ quoted cat @ ''.'')
              else
                let df_sorted = take top_n (sort_rows_desc ix agg_percentage_correct
                                              (map with_percentage model_agg))
                in if df_sorted = [] then
                     Skipped (''Not enough model data for category '' @ quoted cat
                              @ '' after sorting and taking top N.'')
                   else Drawn df_sorted)"

text \<open>
  graph\_stats.py, \<open>plot_top_models_for_specific_categories\<close>: it returns without a word when
  \<open>df_runs\<close> is empty or lacks a column, and otherwise gives one outcome per category.
\<close>

definition runs_columns_present :: "run frame \<Rightarrow> bool" where
  "runs_columns_present df_runs =
     (has_column ''category'' df_runs \<and> has_column ''model_id'' df_runs \<and>
      has_column ''correct'' df_runs)"

definition plot_top_models_for_specific_categories ::
  "(fl list \<Rightarrow> nat list) \<Rightarrow> run frame \<Rightarrow> string list \<Rightarrow> model_stat frame
     \<Rightarrow> (string \<times> model_pct list chart) list" where
  "plot_top_models_for_specific_categories ix df_runs categories_to_plot df_model_stats =
     (if is_empty df_runs then []
      else if \<not> runs_columns_present df_runs then []
      else map (\<lambda>cat. (cat, category_chart ix MIN_QUESTIONS_FOR_CATEGORY_PLOT
                               TOP_N_MODELS_PER_CATEGORY (rows (coerce_correct df_runs)) cat))
             categories_to_plot)"

text \<open>
  igraph\_stats.py, \<open>plot_top_models_for_specific_categories\<close>: only the first category of the
  list is charted, a model selection filters the runs, and the cut to
  \<open>TOP_N_MODELS_PER_CATEGORY\<close> is made only without a selection. Its module sets
  \<open>MIN_QUESTIONS_FOR_CATEGORY_PLOT = 1\<close> and \<open>TOP_N_MODELS_OVERALL = 25\<close>, the default of
  \<open>top_n\<close> in its overall chart.
\<close>

definition igraph_MIN_QUESTIONS_FOR_CATEGORY_PLOT :: nat where
  "igraph_MIN_QUESTIONS_FOR_CATEGORY_PLOT = 1"

definition igraph_TOP_N_MODELS_OVERALL :: nat where
  "igraph_TOP_N_MODELS_OVERALL = 25"

definition run_isin :: "run \<Rightarrow> string list option \<Rightarrow> bool" where
  "run_isin r sel = (case run_model_id r of None \<Rightarrow> False | Some m \<Rightarrow> isin m sel)"

definition igraph_plot_top_models_for_specific_categories ::
  "(fl list \<Rightarrow> nat list) \<Rightarrow> run frame \<Rightarrow> string list \<Rightarrow> model_stat frame
     \<Rightarrow> string list option \<Rightarrow> exn + model_pct list chart" where
  "igraph_plot_top_models_for_specific_categories ix df_runs categories_to_plot df_model_stats
       selected_models =
     (if is_empty df_runs then Inr (Skipped ''Benchmark runs data is empty.'')
      else if \<not> runs_columns_present df_runs then
        Inr (Skipped ''Required columns missing for category plot.'')
      else
        case categories_to_plot of
          [] \<Rightarrow> Inl IndexError
        | cat # _ \<Rightarrow>
            let by_category = filter (\<lambda>r. category r = Some cat) (rows (coerce_correct df_runs));
                df_category_data =
                  (if truthy selected_models
                   then filter (\<lambda>r. run_isin r selected_models) by_category
                   else by_category)
            in if df_category_data = [] then
                 Inr (Skipped (''No data for category: '' @ cat @ '' (after model filter if any).''))
               else
                 let model_agg = filter (\<lambda>a. igraph_MIN_QUESTIONS_FOR_CATEGORY_PLOT
                                                 \<le> agg_total_questions a)
                                   (groupby_model_id df_category_data)
                 in if model_agg = [] then
                      Inr (Skipped (''Not enough data (after MIN_Q) for category '' @ quoted cat @ ''.''))
                    else
                      let sorted_all = sort_rows_desc ix agg_percentage_correct
                                         (map with_percentage model_agg);
                          df_sorted =
                            (if \<not> truthy selected_models
                             then take TOP_N_MODELS_PER_CATEGORY sorted_all else sorted_all)
                      in if df_sorted = [] then
                           Inr (Skipped (''Not enough model data for category '' @ quoted cat
                                         @ '' after sorting/filtering.''))
                         else Inr (Drawn df_sorted))"

section \<open>The log-scale decision\<close>

text \<open>
  \<open>apply_log_scale_if_needed(ax, series_data, axis)\<close> (the same in both files). Of the axes
  object only the two scales are kept. An axis name other than \<open>'x'\<close> and \<open>'y'\<close> changes no
  scale, and the function still answers \<open>True\<close>. \<open>Series.min\<close> and \<open>Series.max\<close> are taken of
  the strictly positive cells, none of which is NaN.
\<close>

record axes =
  xscale :: string
  yscale :: string

definition LOG_SCALE_THRESHOLD_RATIO :: rat where
  "LOG_SCALE_THRESHOLD_RATIO = 20"

definition apply_log_scale_if_needed :: "axes \<Rightarrow> fl list \<Rightarrow> string \<Rightarrow> axes \<times> bool" where
  "apply_log_scale_if_needed ax series_data axis =
     (let positive_data = filter (\<lambda>x. fl_gt x (Fin 0)) series_data
      in if positive_data \<noteq> [] then
           let min_val = Min (set positive_data);
               max_val = Max (set positive_data)
           in if fl_gt max_val (Fin 0) \<and> fl_gt min_val (Fin 0) \<and>
                 fl_gt (truediv max_val min_val) (Fin LOG_SCALE_THRESHOLD_RATIO)
              then ((if axis = ''y'' then ax\<lparr>yscale := ''log''\<rparr>
                     else if axis = ''x'' then ax\<lparr>xscale := ''log''\<rparr>
                     else ax), True)
              else (ax, False)
         else (ax, False))"

text \<open>
  The decision in the words of the specification: there is a strictly positive value, and
  the largest of them divided by the smallest exceeds 20.
\<close>

definition ratio_exceeds_threshold :: "fl list \<Rightarrow> bool" where
  "ratio_exceeds_threshold values =
     (let positive = {x \<in> set values. fl_gt x (Fin 0)}
      in positive \<noteq> {} \<and> fl_gt (truediv (Max positive) (Min positive)) (Fin 20))"

section \<open>Loading the dataset in the interactive application\<close>

text \<open>
  The session state that \<open>BenchmarkApp.load_db\<close> reads and writes: the module's global
  variables, and of the widgets the status label, the model list box, the category
  drop-down with its variable, whether the initial message label is still there, and the
  message boxes shown so far.
\<close>

datatype dialog = ShowInfo string string | ShowError string string | ShowWarning string string

record app =
  db_path_global :: string
  df_model_stats_global :: "model_stat frame"
  df_benchmark_runs_global :: "run frame"
  all_model_names_global :: "string list"
  all_categories_global :: "string list"
  db_status_label :: string
  model_listbox :: "string list"
  category_dropdown :: "string list"
  category_var :: string
  initial_message_label :: bool
  dialogs :: "dialog list"

text \<open>
  What is outside the program: opening a path gives a connection or raises, and each of
  the two \<open>SELECT *\<close> queries on a connection gives a frame or raises (a missing table and
  a malformed file raise \<open>DatabaseError\<close>).
\<close>

record connection =
  model_stats_table :: "exn + model_stat frame"
  benchmark_runs_table :: "exn + run frame"

type_synonym filesystem = "string \<Rightarrow> exn + connection"

fun exn_text :: "exn \<Rightarrow> string" where
  "exn_text (KeyError k) = quoted k"
| "exn_text IndexError = ''list index out of range''"
| "exn_text (DatabaseError m) = m"
| "exn_text (OtherError m) = m"

definition basename :: "string \<Rightarrow> string" where
  "basename p = rev (takeWhile (\<lambda>c. c \<noteq> CHR ''/'') (rev p))"

text \<open>
  The column preparation of \<open>load_db\<close> (lines 611--621): as in the batch script, but a given
  \<open>percentage_correct\<close> is also rounded to one decimal, and nothing is printed.
\<close>

definition igraph_prepare_model_stats :: "model_stat frame \<Rightarrow> model_stat frame" where
  "igraph_prepare_model_stats df =
     (if \<not> has_column ''percentage_correct'' df \<and> has_column ''correct_answers'' df \<and>
         has_column ''total_questions'' df then
        derive_percentage_correct df
      else if has_column ''percentage_correct'' df then
        assign_column ''percentage_correct''
          (\<lambda>r. r\<lparr>percentage_correct := round1 (fillna0 (percentage_correct r))\<rparr>) df
      else df)"

text \<open>
  The body of the \<open>try\<close> block (lines 606--639), started in state \<open>s\<close>: it ends normally in
  a new state, or an exception leaves it with the state reached when it was raised. The
  globals are assigned one by one as the statements run.
\<close>

definition categories_loaded :: "app \<Rightarrow> app" where
  "categories_loaded s =
     (if \<not> is_empty (df_benchmark_runs_global s) \<and>
         has_column ''category'' (df_benchmark_runs_global s) then
        let runs = fill_category (df_benchmark_runs_global s);
            cats = sort (remdups (List.map_filter category (rows runs)))
        in s\<lparr>df_benchmark_runs_global := runs, all_categories_global := cats,
              category_dropdown := cats,
              category_var := (if cats \<noteq> [] then hd cats else category_var s)\<rparr>
      else s\<lparr>category_dropdown := []\<rparr>)"

definition load_db_try :: "filesystem \<Rightarrow> app \<Rightarrow> (exn \<times> app) + app" where
  "load_db_try fs s =
     (case fs (db_path_global s) of
        Inl e \<Rightarrow> Inl (e, s)
      | Inr conn \<Rightarrow>
          (case model_stats_table conn of
             Inl e \<Rightarrow> Inl (e, s)
           | Inr stats \<Rightarrow>
               let s1 = s\<lparr>df_model_stats_global := stats\<rparr>
               in (case benchmark_runs_table conn of
                     Inl e \<Rightarrow> Inl (e, s1)
                   | Inr runs \<Rightarrow>
                       let s2 = s1\<lparr>df_benchmark_runs_global := runs\<rparr>;
                           s3 = s2\<lparr>df_model_stats_global :=
                                     igraph_prepare_model_stats (df_model_stats_global s2)\<rparr>;
                           s4 = s3\<lparr>db_status_label := ''Loaded: '' @ basename (db_path_global s3),
                                   dialogs := dialogs s3 @
                                     [ShowInfo ''Success'' ''Database loaded successfully!'']\<rparr>
                       in if \<not> has_column ''model_id'' (df_model_stats_global s4) then
                            Inl (KeyError ''model_id'', s4)
                          else
                            let names = sort (remdups (map model_id
                                                (rows (df_model_stats_global s4))));
                                s5 = s4\<lparr>all_model_names_global := names,
                                        model_listbox := names\<rparr>
                            in Inr ((categories_loaded s5)\<lparr>initial_message_label := False\<rparr>))))"

text \<open>
  \<open>BenchmarkApp.load_db\<close>, given the path the file dialog returned (empty when the user
  cancelled). The handler of \<open>except Exception\<close> sets the status label, shows the error and
  assigns an empty DataFrame to both relations.
\<close>

definition load_db :: "filesystem \<Rightarrow> string \<Rightarrow> app \<Rightarrow> app" where
  "load_db fs filepath s =
     (if filepath = [] then s
      else
        case load_db_try fs (s\<lparr>db_path_global := filepath\<rparr>) of
          Inr s' \<Rightarrow> s'
        | Inl (e, s') \<Rightarrow>
            s'\<lparr>db_status_label := ''Error loading DB.'',
               dialogs := dialogs s' @
                 [ShowError ''Error'' (''Failed to load database: '' @ exn_text e)],
               df_model_stats_global := empty_frame,
               df_benchmark_runs_global := empty_frame\<rparr>)"

text \<open>
  A load fails when the file cannot be opened, when either query raises, or when
  \<open>model_stats\<close> has no \<open>model_id\<close> column (line 626 then raises KeyError).
\<close>

definition load_fails :: "filesystem \<Rightarrow> string \<Rightarrow> bool" where
  "load_fails fs filepath =
     (case fs filepath of
        Inl e \<Rightarrow> True
      | Inr conn \<Rightarrow>
          (case model_stats_table conn of
             Inl e \<Rightarrow> True
           | Inr stats \<Rightarrow>
               (case benchmark_runs_table conn of
                  Inl e \<Rightarrow> True
                | Inr runs \<Rightarrow> \<not> has_column ''model_id'' stats)))"

section \<open>DataFrame objects and who writes to them\<close>








text \<open>
  What each chart function writes to the objects it is given (the same in both files).
  The bar chart of overall correctness only reads its argument; the two scatter plots,
  once past their guards, work on a copy they make themselves (\<open>df_model_stats.copy()\<close>);
  the heatmap and the category bar chart, once past theirs, assign the coerced \<open>correct\<close>
  column into the \<open>df_runs\<close> they were given. \<open>SpeedVsQuality\<close> carries the
  \<open>speed_metric_col\<close> of \<open>plot_speed_vs_quality\<close>.
\<close>

datatype renderer =
    OverallBar | SpeedsScatter | SpeedVsQuality string | Heatmap | CategoryBars










section \<open>The batch run\<close>

text \<open>
  What \<open>main\<close> of graph\_stats.py finds outside the program: whether the output directory
  and the database file exist, and what \<open>sqlite3.connect\<close> and the two queries give. What
  it does is the list of its own steps: the lines it prints and the chart functions it
  calls, in order, and whether it returned or let an exception escape. \<open>main\<close> catches
  \<open>DatabaseError\<close> around the two queries and nothing else. A chart function that raises
  would end the run at its call; the steps are those of a run in which none does.
\<close>

record world =
  output_dir_exists :: bool
  db_exists :: bool
  connect :: "exn + connection"

datatype event = Print string | Attempt renderer


definition DB_PATH :: string where
  "DB_PATH = ''benchmark.db''"

definition OUTPUT_DIR :: string where
  "OUTPUT_DIR = ''benchmark_graphs''"

definition startup :: "world \<Rightarrow> event list" where
  "startup w =
     [Print ((if output_dir_exists w then ''Cleared output directory: ''
              else ''Created output directory: '') @ OUTPUT_DIR),
      Print (''Connecting to database: '' @ DB_PATH)]"




definition attempts :: "event list \<Rightarrow> renderer list" where
  "attempts evs = concat (map (\<lambda>e. case e of Attempt f \<Rightarrow> [f] | Print _ \<Rightarrow> []) evs)"

section \<open>Sample data\<close>


definition stat :: "string \<Rightarrow> rat \<Rightarrow> model_stat" where
  "stat m p =
     \<lparr>model_id = m, percentage_correct = Fin p, avg_prompt_eval_per_second = NaN,
      avg_tokens_per_second = NaN, total_questions = NaN, correct_answers = NaN\<rparr>"

definition abc_stats :: "model_stat frame" where
  "abc_stats =
     \<lparr>columns = [''model_id'', ''percentage_correct''],
      rows = [stat ''A'' 80, stat ''B'' 60, stat ''C'' 90]\<rparr>"


definition a_run :: "string \<Rightarrow> string \<Rightarrow> rat \<Rightarrow> run" where
  "a_run m c v = \<lparr>run_model_id = Some m, category = Some c, correct = Fin v\<rparr>"

definition math_runs :: "run frame" where
  "math_runs =
     \<lparr>columns = [''model_id'', ''category'', ''correct''],
      rows = [a_run ''A'' ''Math'' 1, a_run ''B'' ''Math'' 0, a_run ''A'' ''History'' 1]\<rparr>"

definition loaded_app :: app where
  "loaded_app =
     \<lparr>db_path_global = ''old.db'', df_model_stats_global = abc_stats,
      df_benchmark_runs_global = math_runs, all_model_names_global = [''A'', ''B'', ''C''],
      all_categories_global = [''History'', ''Math''], db_status_label = ''Loaded: old.db'',
      model_listbox = [''A'', ''B'', ''C''], category_dropdown = [''History'', ''Math''],
      category_var = ''History'', initial_message_label = False, dialogs = []\<rparr>"

definition no_tables :: filesystem where
  "no_tables path =
     Inr \<lparr>model_stats_table = Inl (DatabaseError ''no such table: model_stats''),
          benchmark_runs_table = Inl (DatabaseError ''no such table: benchmark_runs'')\<rparr>"




section \<open>Properties\<close>

lemma rows_assign_column: "rows (assign_column c f df) = map f (rows df)"
  by (simp add: assign_column_def)





subsection \<open>Derived percentage\<close>



subsection \<open>Sorting\<close>

lemma desc_key_le: "desc_key a \<le> desc_key b \<Longrightarrow> desc_nan_last a b"
  by (cases a; cases b) (auto simp: desc_nan_last_def less_eq_fl_def)

lemma sort_key_meets_contract:
  assumes "mset js = mset [0..<length ks]"
  shows "mset (sort_key (\<lambda>i. desc_key (ks ! i)) js) = mset [0..<length ks] \<and>
         sorted_wrt (\<lambda>i j. desc_nan_last (ks ! i) (ks ! j)) (sort_key (\<lambda>i. desc_key (ks ! i)) js)"
proof
  show "mset (sort_key (\<lambda>i. desc_key (ks ! i)) js) = mset [0..<length ks]"
    using assms by simp
  have "sorted (map (\<lambda>i. desc_key (ks ! i)) (sort_key (\<lambda>i. desc_key (ks ! i)) js))"
    by (rule sorted_sort_key)
  then have "sorted_wrt (\<lambda>i j. desc_key (ks ! i) \<le> desc_key (ks ! j)) (sort_key (\<lambda>i. desc_key (ks ! i)) js)"
    by (simp add: sorted_map)
  then show "sorted_wrt (\<lambda>i j. desc_nan_last (ks ! i) (ks ! j)) (sort_key (\<lambda>i. desc_key (ks ! i)) js)"
    by (rule sorted_wrt_mono_rel[rotated]) (simp add: desc_key_le)
qed

lemma sort_contract_stable_indexer: "sort_contract stable_indexer"
  unfolding sort_contract_def stable_indexer_def
  using sort_key_meets_contract[of "[0..<length ks]" ks for ks] by blast


lemma contract_mset: "sort_contract ix \<Longrightarrow> mset (ix ks) = mset [0..<length ks]"
  by (simp add: sort_contract_def)




lemma mset_sort_rows_desc:
  assumes "sort_contract ix"
  shows "mset (sort_rows_desc ix key xs) = mset xs"
proof -
  let ?xs = "xs"
  have "mset (map (\<lambda>i. ?xs ! i) (ix (map key ?xs))) = image_mset (\<lambda>i. ?xs ! i) (mset (ix (map key ?xs)))"
    by simp
  also have "\<dots> = image_mset (\<lambda>i. ?xs ! i) (mset [0..<length ?xs])"
    using contract_mset[OF assms, of "map key ?xs"] by simp
  also have "\<dots> = mset (map (\<lambda>i. ?xs ! i) [0..<length ?xs])" by simp
  also have "\<dots> = mset ?xs" by (simp add: map_nth)
  finally show ?thesis by (simp add: sort_rows_desc_def)
qed


lemma set_sort_rows_desc:
  "sort_contract ix \<Longrightarrow> set (sort_rows_desc ix key xs) = set xs"
  using mset_eq_setD[OF mset_sort_rows_desc] by fastforce





lemma columns_sort_values_desc [simp]: "columns (sort_values_desc ix key df) = columns df"
  by (simp add: sort_values_desc_def)

lemma columns_head_df [simp]: "columns (head_df n df) = columns df"
  by (simp add: head_df_def)

lemma rows_head_df [simp]: "rows (head_df n df) = take n (rows df)"
  by (simp add: head_df_def)


subsection \<open>The ranked selection\<close>






subsection \<open>The per-category aggregate\<close>

lemma fillna0_not_NaN [simp]: "fillna0 x \<noteq> NaN" "NaN \<noteq> fillna0 x"
  by (cases x; simp)+

lemma rows_coerce_correct:
  "rows (coerce_correct df) = map (\<lambda>r. r\<lparr>correct := fillna0 (correct r)\<rparr>) (rows df)"
  by (simp add: coerce_correct_def rows_assign_column)

lemma series_count_all: "NaN \<notin> set xs \<Longrightarrow> series_count xs = length xs"
  by (induction xs) (auto simp add: series_count_def)

lemma set_group_keys: "set (group_keys rs) = {m. \<exists>r\<in>set rs. run_model_id r = Some m}"
  by (force simp add: group_keys_def map_filter_def)

lemma distinct_group_keys: "distinct (group_keys rs)"
  by (simp add: group_keys_def)

lemma groupby_model_id_count:
  "b \<in> set (groupby_model_id rs) \<Longrightarrow>
     agg_total_questions b =
       series_count (map correct (filter (\<lambda>r. run_model_id r = Some (agg_model_id b)) rs))"
  by (auto simp add: groupby_model_id_def Let_def)

lemma map_agg_model_id_groupby: "map agg_model_id (groupby_model_id rs) = group_keys rs"
  by (simp add: groupby_model_id_def Let_def o_def)

lemma length_filter_map: "length (filter P (map f xs)) = length (filter (\<lambda>x. P (f x)) xs)"
  by (simp add: filter_map o_def)

lemma coerced_group_count:
  assumes "b \<in> set (groupby_model_id (filter (\<lambda>r. category r = Some cat) (rows (coerce_correct df))))"
  shows "agg_total_questions b =
           length (filter (\<lambda>r. category r = Some cat \<and> run_model_id r = Some (agg_model_id b)) (rows df))"
proof -
  let ?rs = "filter (\<lambda>r. category r = Some cat) (rows (coerce_correct df))"
  let ?g = "filter (\<lambda>r. run_model_id r = Some (agg_model_id b)) ?rs"
  have "NaN \<notin> set (map correct ?g)"
    by (auto simp add: rows_coerce_correct)
  then have "agg_total_questions b = length ?g"
    using groupby_model_id_count[OF assms] by (simp add: series_count_all)
  also have "\<dots> = length (filter (\<lambda>r. category r = Some cat \<and> run_model_id r = Some (agg_model_id b)) (rows df))"
    by (simp add: rows_coerce_correct filter_map o_def conj_commute)
  finally show ?thesis .
qed

lemma with_percentage_fields [simp]:
  "agg_model_id (with_percentage a) = agg_model_id a"
  "agg_total_questions (with_percentage a) = agg_total_questions a"
  "agg_correct_answers (with_percentage a) = agg_correct_answers a"
  by (simp_all add: with_percentage_def)

lemma category_chart_Drawn:
  assumes "sort_contract ix" and "category_chart ix min_q top_n runs cat = Drawn rs"
  shows "rs = take top_n (sort_rows_desc ix agg_percentage_correct
                (map with_percentage (filter (\<lambda>a. min_q \<le> agg_total_questions a)
                   (groupby_model_id (filter (\<lambda>r. category r = Some cat) runs)))))"
  using assms(2) by (simp add: category_chart_def Let_def split: if_splits)

lemma category_chart_Drawn_member:
  assumes "sort_contract ix" and "category_chart ix min_q top_n runs cat = Drawn rs"
    and "a \<in> set rs"
  shows "\<exists>b \<in> set (groupby_model_id (filter (\<lambda>r. category r = Some cat) runs)).
           a = with_percentage b \<and> min_q \<le> agg_total_questions b"
proof -
  have "a \<in> set (sort_rows_desc ix agg_percentage_correct
                (map with_percentage (filter (\<lambda>a. min_q \<le> agg_total_questions a)
                   (groupby_model_id (filter (\<lambda>r. category r = Some cat) runs)))))"
    using assms(3) category_chart_Drawn[OF assms(1,2)] by (auto dest: in_set_takeD)
  then show ?thesis
    by (auto simp add: set_sort_rows_desc[OF assms(1)])
qed

lemma category_chart_rows_counted:
  assumes "sort_contract ix"
    and d: "category_chart ix min_q top_n (rows (coerce_correct df)) cat = Drawn rs"
    and a: "a \<in> set rs"
  shows "min_q \<le> agg_total_questions a \<and>
         agg_total_questions a =
           length (filter (\<lambda>r. category r = Some cat \<and> run_model_id r = Some (agg_model_id a))
                     (rows df))"
proof -
  from category_chart_Drawn_member[OF assms(1) d a] obtain b
    where b: "b \<in> set (groupby_model_id (filter (\<lambda>r. category r = Some cat) (rows (coerce_correct df))))"
      and ab: "a = with_percentage b" and m: "min_q \<le> agg_total_questions b"
    by blast
  show ?thesis using coerced_group_count[OF b] ab m by simp
qed

lemma category_chart_too_few:
  assumes few: "length (filter (\<lambda>r. category r = Some cat) (rows df)) < min_q"
  shows "\<exists>msg. category_chart ix min_q top_n (rows (coerce_correct df)) cat = Skipped msg"
proof -
  let ?rs = "filter (\<lambda>r. category r = Some cat) (rows (coerce_correct df))"
  have "\<And>b. b \<in> set (groupby_model_id ?rs) \<Longrightarrow> agg_total_questions b < min_q"
  proof -
    fix b assume b: "b \<in> set (groupby_model_id ?rs)"
    have "agg_total_questions b
            = length (filter (\<lambda>r. category r = Some cat \<and> run_model_id r = Some (agg_model_id b)) (rows df))"
      by (rule coerced_group_count[OF b])
    also have "\<dots> = length (filter (\<lambda>r. run_model_id r = Some (agg_model_id b))
                               (filter (\<lambda>r. category r = Some cat) (rows df)))"
      by (simp add: conj_commute)
    also have "\<dots> \<le> length (filter (\<lambda>r. category r = Some cat) (rows df))"
      by (rule length_filter_le)
    finally show "agg_total_questions b < min_q" using few by simp
  qed
  then have "filter (\<lambda>a. min_q \<le> agg_total_questions a) (groupby_model_id ?rs) = []"
    by (fastforce simp add: filter_empty_conv)
  then show ?thesis
    by (simp add: category_chart_def Let_def)
qed

text \<open>
  Claim C5. Every row a category chart is drawn from has at least \<open>min_q\<close> samples, its
  \<open>total_questions\<close> being the number of runs of that model in that category; a category
  with fewer than \<open>min_q\<close> runs in all gives no chart, only a diagnostic; and the batch
  script's function draws each of its charts that way with
  \<open>MIN_QUESTIONS_FOR_CATEGORY_PLOT = 3\<close>.
\<close>

theorem category_chart_min_samples:
  assumes "sort_contract ix"
  shows "(\<forall>rs. category_chart ix min_q top_n (rows (coerce_correct df)) cat = Drawn rs \<longrightarrow>
            (\<forall>a \<in> set rs. min_q \<le> agg_total_questions a \<and>
               agg_total_questions a =
                 length (filter (\<lambda>r. category r = Some cat \<and> run_model_id r = Some (agg_model_id a))
                           (rows df)))) \<and>
         (length (filter (\<lambda>r. category r = Some cat) (rows df)) < min_q \<longrightarrow>
            (\<exists>msg. category_chart ix min_q top_n (rows (coerce_correct df)) cat = Skipped msg)) \<and>
         (\<forall>c rs. (c, Drawn rs) \<in> set (plot_top_models_for_specific_categories ix df cats df_model_stats) \<longrightarrow>
            (\<forall>a \<in> set rs. 3 \<le> agg_total_questions a))"
proof (intro conjI allI impI ballI)
  fix rs a
  assume "category_chart ix min_q top_n (rows (coerce_correct df)) cat = Drawn rs" "a \<in> set rs"
  from category_chart_rows_counted[OF assms this]
  show "min_q \<le> agg_total_questions a"
    and "agg_total_questions a =
          length (filter (\<lambda>r. category r = Some cat \<and> run_model_id r = Some (agg_model_id a)) (rows df))"
    by simp_all
next
  assume "length (filter (\<lambda>r. category r = Some cat) (rows df)) < min_q"
  then show "\<exists>msg. category_chart ix min_q top_n (rows (coerce_correct df)) cat = Skipped msg"
    by (rule category_chart_too_few)
next
  fix c rs a
  assume m: "(c, Drawn rs) \<in> set (plot_top_models_for_specific_categories ix df cats df_model_stats)"
    and a: "a \<in> set rs"
  from m have "category_chart ix MIN_QUESTIONS_FOR_CATEGORY_PLOT TOP_N_MODELS_PER_CATEGORY
                 (rows (coerce_correct df)) c = Drawn rs"
    by (auto simp add: plot_top_models_for_specific_categories_def split: if_splits)
  from category_chart_rows_counted[OF assms this a]
  show "3 \<le> agg_total_questions a"
    by (simp add: MIN_QUESTIONS_FOR_CATEGORY_PLOT_def)
qed

theorem category_chart_min_samples_witness:
  "(\<exists>msg. category_chart stable_indexer 3 15 (rows (coerce_correct math_runs)) ''Math'' = Skipped msg) \<and>
   plot_top_models_for_specific_categories stable_indexer math_runs [''Math''] abc_stats
     = [(''Math'', Skipped (''Not enough model data (after MIN_QUESTIONS_FOR_CATEGORY_PLOT) for category ''
                             @ quoted ''Math'' @ ''.''))] \<and>
   (\<exists>rs. category_chart stable_indexer 1 15 (rows (coerce_correct math_runs)) ''Math'' = Drawn rs \<and>
         rs \<noteq> [] \<and> list_all (\<lambda>a. 1 \<le> agg_total_questions a) rs)"
proof (intro conjI)
  have few: "length (filter (\<lambda>r. category r = Some ''Math'') (rows math_runs)) < 3"
    by (simp add: math_runs_def a_run_def)
  note inst = category_chart_min_samples[OF sort_contract_stable_indexer]
  from inst[of 3 15 math_runs "''Math''"] few
  show "\<exists>msg. category_chart stable_indexer 3 15 (rows (coerce_correct math_runs)) ''Math'' = Skipped msg"
    by blast
  show "plot_top_models_for_specific_categories stable_indexer math_runs [''Math''] abc_stats
     = [(''Math'', Skipped (''Not enough model data (after MIN_QUESTIONS_FOR_CATEGORY_PLOT) for category ''
                             @ quoted ''Math'' @ ''.''))]"
    by code_simp
  have d: "category_chart stable_indexer 1 15 (rows (coerce_correct math_runs)) ''Math''
    = Drawn [\<lparr>agg_model_id = ''A'', agg_correct_answers = Fin 1, agg_total_questions = 1,
                agg_percentage_correct = Fin 100\<rparr>,
             \<lparr>agg_model_id = ''B'', agg_correct_answers = Fin 0, agg_total_questions = 1,
                agg_percentage_correct = Fin 0\<rparr>]"
    by code_simp
  from inst[of 1 15 math_runs "''Math''"] d
  show "\<exists>rs. category_chart stable_indexer 1 15 (rows (coerce_correct math_runs)) ''Math'' = Drawn rs \<and>
         rs \<noteq> [] \<and> list_all (\<lambda>a. 1 \<le> agg_total_questions a) rs"
    by (simp add: list_all_iff)
qed

subsection \<open>A model selection in the interactive application\<close>

lemma group_count_positive:
  assumes "\<forall>r \<in> set rs. correct r \<noteq> NaN" and "b \<in> set (groupby_model_id rs)"
  shows "1 \<le> agg_total_questions b"
proof -
  have "agg_model_id b \<in> set (map agg_model_id (groupby_model_id rs))"
    using assms(2) by simp
  then have "agg_model_id b \<in> set (group_keys rs)"
    by (simp only: map_agg_model_id_groupby)
  then obtain r where r: "r \<in> set rs" "run_model_id r = Some (agg_model_id b)"
    by (auto simp add: set_group_keys)
  let ?g = "filter (\<lambda>r. run_model_id r = Some (agg_model_id b)) rs"
  have "NaN \<notin> set (map correct ?g)" using assms(1) by auto
  then have "agg_total_questions b = length ?g"
    using groupby_model_id_count[OF assms(2)] by (simp add: series_count_all)
  moreover have "r \<in> set ?g" using r by simp
  then have "0 < length ?g" by (rule length_pos_if_in_set)
  ultimately show ?thesis by (simp add: Suc_le_eq)
qed

lemma coerced_not_NaN: "\<forall>r \<in> set (filter P (filter Q (rows (coerce_correct df)))). correct r \<noteq> NaN"
  by (auto simp add: rows_coerce_correct)

lemma igraph_category_selected:
  assumes c: "sort_contract ix" and t: "truthy sel"
    and ne: "\<not> is_empty runs" and cols: "runs_columns_present runs"
  shows "(let chosen = {m. isin m sel \<and>
                           (\<exists>r \<in> set (rows runs). category r = Some cat \<and> run_model_id r = Some m)}
          in if chosen = {}
             then \<exists>msg. igraph_plot_top_models_for_specific_categories ix runs (cat # cats) ms sel
                          = Inr (Skipped msg)
             else \<exists>rs. igraph_plot_top_models_for_specific_categories ix runs (cat # cats) ms sel
                          = Inr (Drawn rs) \<and>
                        set (map agg_model_id rs) = chosen \<and> distinct (map agg_model_id rs))"
proof -
  let ?data = "filter (\<lambda>r. run_isin r sel) (filter (\<lambda>r. category r = Some cat) (rows (coerce_correct runs)))"
  let ?agg = "groupby_model_id ?data"
  let ?chosen = "{m. isin m sel \<and> (\<exists>r \<in> set (rows runs). category r = Some cat \<and> run_model_id r = Some m)}"
  let ?sorted = "sort_rows_desc ix agg_percentage_correct (map with_percentage ?agg)"
  have keep: "filter (\<lambda>a. igraph_MIN_QUESTIONS_FOR_CATEGORY_PLOT \<le> agg_total_questions a) ?agg = ?agg"
    using group_count_positive[OF coerced_not_NaN]
    by (simp add: igraph_MIN_QUESTIONS_FOR_CATEGORY_PLOT_def)
  have keys: "set (group_keys ?data) = ?chosen"
    by (auto simp add: set_group_keys rows_coerce_correct run_isin_def split: option.splits)
  have ids: "mset (map agg_model_id ?sorted) = mset (group_keys ?data)"
  proof -
    have "mset (map agg_model_id ?sorted) = image_mset agg_model_id (mset ?sorted)" by simp
    also have "\<dots> = image_mset agg_model_id (mset (map with_percentage ?agg))"
      by (simp only: mset_sort_rows_desc[OF c])
    also have "\<dots> = mset (map agg_model_id ?agg)" by (simp add: image_mset.compositionality o_def)
    finally show ?thesis by (simp add: map_agg_model_id_groupby)
  qed
  have set_ids: "set (map agg_model_id ?sorted) = ?chosen"
    using mset_eq_setD[OF ids] keys by simp
  have dist: "distinct (map agg_model_id ?sorted)"
    using mset_eq_imp_distinct_iff[OF ids] distinct_group_keys by blast
  have empty_iff: "?data = [] \<longleftrightarrow> ?chosen = {}"
  proof
    assume "?data = []"
    then have "group_keys ?data = []" by (simp add: group_keys_def map_filter_def)
    then have "set (group_keys ?data) = {}" by simp
    then show "?chosen = {}" unfolding keys .
  next
    assume e: "?chosen = {}"
    show "?data = []"
    proof (rule ccontr)
      assume "?data \<noteq> []"
      then have h: "hd ?data \<in> set ?data" by (rule hd_in_set)
      define r where "r = hd ?data"
      have r: "r \<in> set ?data" using h by (simp only: r_def)
      then have "run_isin r sel" by simp
      then obtain m where "run_model_id r = Some m"
        by (cases "run_model_id r") (simp_all add: run_isin_def)
      with r have "m \<in> set (group_keys ?data)" unfolding set_group_keys by blast
      with keys e show False by simp
    qed
  qed
  have "?agg = [] \<longleftrightarrow> set (map agg_model_id ?agg) = {}" by simp
  then have agg_empty: "?agg = [] \<longleftrightarrow> ?chosen = {}"
    unfolding map_agg_model_id_groupby keys .
  have "?sorted = [] \<longleftrightarrow> set (map agg_model_id ?sorted) = {}" by simp
  then have sorted_empty: "?sorted = [] \<longleftrightarrow> ?chosen = {}"
    unfolding set_ids .
  show ?thesis
  proof (cases "?chosen = {}")
    case True
    then have "?data = []" using empty_iff by simp
    then show ?thesis
      using True t ne cols
      by (simp add: igraph_plot_top_models_for_specific_categories_def Let_def)
  next
    case False
    then have "?data \<noteq> []" "?agg \<noteq> []" "?sorted \<noteq> []"
      using empty_iff agg_empty sorted_empty by simp_all
    then have "igraph_plot_top_models_for_specific_categories ix runs (cat # cats) ms sel
                 = Inr (Drawn ?sorted)"
      using t ne cols keep
      by (simp add: igraph_plot_top_models_for_specific_categories_def Let_def)
    then show ?thesis
      using False set_ids dist by (simp add: Let_def)
  qed
qed


lemma igraph_overall_selected:
  assumes c: "sort_contract ix" and t: "truthy sel"
    and ne: "\<not> is_empty df" and pc: "has_column ''percentage_correct'' df"
    and mi: "has_column ''model_id'' df"
  shows "(let chosen = filter (\<lambda>r. isin (model_id r) sel) (rows df)
          in if chosen = []
             then \<exists>msg. igraph_plot_overall_model_correctness_bar ix df top_n sel = Inr (Skipped msg)
             else \<exists>rs. igraph_plot_overall_model_correctness_bar ix df top_n sel = Inr (Drawn rs) \<and>
                        mset rs = mset chosen)"
proof -
  let ?chosen = "filter (\<lambda>r. isin (model_id r) sel) (rows df)"
  let ?sorted = "sort_rows_desc ix percentage_correct ?chosen"
  have cols: "columns df \<noteq> []" using ne by (simp add: is_empty_def)
  have m: "mset ?sorted = mset ?chosen" by (rule mset_sort_rows_desc[OF c])
  have "?sorted = [] \<longleftrightarrow> ?chosen = []"
    using mset_eq_length[OF m] by (metis length_0_conv)
  then show ?thesis
    using t ne pc mi cols m
    by (simp add: igraph_plot_overall_model_correctness_bar_def Let_def is_empty_def
        filter_df_def has_column_def sort_values_desc_def)
qed

lemma igraph_overall_unselected:
  assumes c: "sort_contract ix" and t: "\<not> truthy sel"
    and d: "igraph_plot_overall_model_correctness_bar ix df top_n sel = Inr (Drawn rs)"
  shows "rs = rows (overall_top ix top_n df) \<and> length rs \<le> top_n"
proof -
  from d t have "rs = rows (overall_top ix top_n df)"
    by (simp add: igraph_plot_overall_model_correctness_bar_def Let_def split: if_splits)
  then show ?thesis by (simp add: overall_top_def)
qed

lemma igraph_category_unselected:
  assumes t: "\<not> truthy sel"
    and d: "igraph_plot_top_models_for_specific_categories ix runs cats ms sel = Inr (Drawn rs)"
  shows "length rs \<le> TOP_N_MODELS_PER_CATEGORY"
  using d t
  by (auto simp add: igraph_plot_top_models_for_specific_categories_def Let_def
      split: if_splits list.splits)

text \<open>
  Claim C10. With a non-empty selection, the overall chart of the interactive application
  is drawn from exactly the rows of the selected models (all of them, however many), and
  the category chart has exactly one bar for each selected model that has a run in the
  category; when no selected model is in the data there is a message instead. Without a
  selection the overall chart has at most \<open>top_n\<close> rows and the category chart at most
  \<open>TOP_N_MODELS_PER_CATEGORY\<close>.
\<close>

theorem selection_bypasses_top_n:
  assumes "sort_contract ix"
  shows "(truthy sel \<and> \<not> is_empty df \<and> has_column ''percentage_correct'' df \<and>
          has_column ''model_id'' df \<longrightarrow>
            (let chosen = filter (\<lambda>r. isin (model_id r) sel) (rows df)
             in if chosen = []
                then \<exists>msg. igraph_plot_overall_model_correctness_bar ix df top_n sel = Inr (Skipped msg)
                else \<exists>rs. igraph_plot_overall_model_correctness_bar ix df top_n sel = Inr (Drawn rs) \<and>
                           mset rs = mset chosen)) \<and>
         (truthy sel \<and> \<not> is_empty runs \<and> runs_columns_present runs \<longrightarrow>
            (let chosen = {m. isin m sel \<and>
                              (\<exists>r \<in> set (rows runs). category r = Some cat \<and> run_model_id r = Some m)}
             in if chosen = {}
                then \<exists>msg. igraph_plot_top_models_for_specific_categories ix runs (cat # cats) ms sel
                             = Inr (Skipped msg)
                else \<exists>rs. igraph_plot_top_models_for_specific_categories ix runs (cat # cats) ms sel
                             = Inr (Drawn rs) \<and>
                           set (map agg_model_id rs) = chosen \<and> distinct (map agg_model_id rs))) \<and>
         (\<not> truthy sel \<longrightarrow>
            (\<forall>rs. igraph_plot_overall_model_correctness_bar ix df top_n sel = Inr (Drawn rs) \<longrightarrow>
                  rs = rows (overall_top ix top_n df) \<and> length rs \<le> top_n) \<and>
            (\<forall>rs. igraph_plot_top_models_for_specific_categories ix runs (cat # cats) ms sel
                    = Inr (Drawn rs) \<longrightarrow> length rs \<le> TOP_N_MODELS_PER_CATEGORY))"
  using igraph_overall_selected[OF assms, of sel df top_n]
    igraph_category_selected[OF assms, of sel runs cat cats ms]
    igraph_overall_unselected[OF assms, of sel df top_n]
    igraph_category_unselected[of sel ix runs "cat # cats" ms]
  by blast

theorem selection_bypasses_top_n_witness:
  "(\<exists>rs. igraph_plot_overall_model_correctness_bar stable_indexer abc_stats 1 (Some [''A'', ''C''])
           = Inr (Drawn rs) \<and> length rs = 2) \<and>
   (\<exists>rs. igraph_plot_top_models_for_specific_categories stable_indexer math_runs [''Math''] abc_stats
             (Some [''A'', ''B'', ''Z'']) = Inr (Drawn rs) \<and>
          set (map agg_model_id rs) = {''A'', ''B''}) \<and>
   (\<exists>rs. igraph_plot_overall_model_correctness_bar stable_indexer abc_stats 1 None
           = Inr (Drawn rs) \<and> length rs \<le> 1)"
proof (intro conjI)
  note inst = selection_bypasses_top_n[OF sort_contract_stable_indexer]
  have t: "truthy (Some [''A'', ''C''])" "truthy (Some [''A'', ''B'', ''Z''])" "\<not> truthy None"
    by (simp_all add: truthy_def)
  have a: "\<not> is_empty abc_stats" "has_column ''percentage_correct'' abc_stats"
    "has_column ''model_id'' abc_stats"
    by (simp_all add: is_empty_def has_column_def abc_stats_def)
  have ch: "filter (\<lambda>r. isin (model_id r) (Some [''A'', ''C''])) (rows abc_stats)
              = [stat ''A'' 80, stat ''C'' 90]"
    by (simp add: abc_stats_def isin_def stat_def)
  have "\<exists>rs. igraph_plot_overall_model_correctness_bar stable_indexer abc_stats 1 (Some [''A'', ''C''])
           = Inr (Drawn rs) \<and> mset rs = mset [stat ''A'' 80, stat ''C'' 90]"
    using inst[of "Some [''A'', ''C'']" abc_stats 1, THEN conjunct1] t a ch
    by (simp add: Let_def)
  then show "\<exists>rs. igraph_plot_overall_model_correctness_bar stable_indexer abc_stats 1 (Some [''A'', ''C''])
           = Inr (Drawn rs) \<and> length rs = 2"
    using mset_eq_length by fastforce
  have m: "\<not> is_empty math_runs" "runs_columns_present math_runs"
    by (simp_all add: is_empty_def runs_columns_present_def has_column_def math_runs_def)
  have cm: "{m. isin m (Some [''A'', ''B'', ''Z'']) \<and>
               (\<exists>r \<in> set (rows math_runs). category r = Some ''Math'' \<and> run_model_id r = Some m)}
            = {''A'', ''B''}"
    by (auto simp add: isin_def math_runs_def a_run_def)
  from inst[of "Some [''A'', ''B'', ''Z'']" _ _ math_runs "''Math''" "[]" abc_stats,
      THEN conjunct2, THEN conjunct1] t m
  show "\<exists>rs. igraph_plot_top_models_for_specific_categories stable_indexer math_runs [''Math''] abc_stats
             (Some [''A'', ''B'', ''Z'']) = Inr (Drawn rs) \<and>
          set (map agg_model_id rs) = {''A'', ''B''}"
    unfolding cm by (auto simp add: Let_def)
  have d: "igraph_plot_overall_model_correctness_bar stable_indexer abc_stats 1 None
             = Inr (Drawn [stat ''C'' 90])"
    by code_simp
  have "[stat ''C'' 90] = rows (overall_top stable_indexer 1 abc_stats) \<and>
        length [stat ''C'' 90] \<le> 1"
    by (rule inst[of None abc_stats 1, THEN conjunct2, THEN conjunct2, THEN mp, OF t(3),
          THEN conjunct1, THEN spec, THEN mp, OF d])
  with d show "\<exists>rs. igraph_plot_overall_model_correctness_bar stable_indexer abc_stats 1 None
           = Inr (Drawn rs) \<and> length rs \<le> 1"
    by blast
qed

subsection \<open>The log-scale decision\<close>

lemma positive_set: "set (filter (\<lambda>x. fl_gt x (Fin 0)) xs) = {x \<in> set xs. fl_gt x (Fin 0)}"
  by auto

lemma positive_Min_Max:
  assumes "filter (\<lambda>x. fl_gt x (Fin 0)) xs \<noteq> []"
  shows "fl_gt (Min (set (filter (\<lambda>x. fl_gt x (Fin 0)) xs))) (Fin 0) \<and>
         fl_gt (Max (set (filter (\<lambda>x. fl_gt x (Fin 0)) xs))) (Fin 0)"
proof -
  let ?P = "set (filter (\<lambda>x. fl_gt x (Fin 0)) xs)"
  have ne: "?P \<noteq> {}" using assms by (simp only: set_empty not_False_eq_True)
  have "Min ?P \<in> ?P" by (rule Min_in[OF finite_set ne])
  moreover have "Max ?P \<in> ?P" by (rule Max_in[OF finite_set ne])
  ultimately show ?thesis by simp
qed

text \<open>
  Claim C6. The answer of \<open>apply_log_scale_if_needed\<close> is \<open>True\<close> exactly when there is a
  strictly positive value and the largest positive value divided by the smallest exceeds
  20; it is \<open>True\<close> for 1, 25 and \<open>False\<close> for 1, 15.
\<close>

theorem log_scale_decision:
  "snd (apply_log_scale_if_needed ax values axis) = ratio_exceeds_threshold values \<and>
   snd (apply_log_scale_if_needed ax [Fin 1, Fin 25] axis) \<and>
   \<not> snd (apply_log_scale_if_needed ax [Fin 1, Fin 15] axis)"
proof (intro conjI)
  show "snd (apply_log_scale_if_needed ax values axis) = ratio_exceeds_threshold values"
  proof (cases "filter (\<lambda>x. fl_gt x (Fin 0)) values = []")
    case True
    then have "{x \<in> set values. fl_gt x (Fin 0)} = {}"
      unfolding positive_set[symmetric] by simp
    with True show ?thesis
      by (simp add: apply_log_scale_if_needed_def ratio_exceeds_threshold_def Let_def)
  next
    case False
    then have "{x \<in> set values. fl_gt x (Fin 0)} \<noteq> {}"
      unfolding positive_set[symmetric] by (simp only: set_empty not_False_eq_True)
    with False positive_Min_Max[OF False] show ?thesis
      by (simp add: apply_log_scale_if_needed_def ratio_exceeds_threshold_def Let_def
          positive_set LOG_SCALE_THRESHOLD_RATIO_def)
  qed
  have p: "fl_gt (Fin 1) (Fin 0)" "fl_gt (Fin 25) (Fin 0)" "fl_gt (Fin 15) (Fin 0)"
    "Fin 1 \<le> Fin 25" "Fin 1 \<le> Fin 15" "fl_gt (Fin 25) (Fin 20)" "\<not> fl_gt (Fin 15) (Fin 20)"
    by (simp_all add: fl_gt_def less_fl_def less_eq_fl_def)
  show "snd (apply_log_scale_if_needed ax [Fin 1, Fin 25] axis)"
    using p by (simp add: apply_log_scale_if_needed_def Let_def LOG_SCALE_THRESHOLD_RATIO_def
        min_def max_def)
  show "\<not> snd (apply_log_scale_if_needed ax [Fin 1, Fin 15] axis)"
    using p by (simp add: apply_log_scale_if_needed_def Let_def LOG_SCALE_THRESHOLD_RATIO_def
        min_def max_def)
qed

subsection \<open>A failed load\<close>

lemma has_column_assign_column:
  "has_column c (assign_column c' f df) = (c = c' \<or> has_column c df)"
  by (auto simp add: has_column_def assign_column_def)

lemma has_column_igraph_prepare:
  "has_column ''model_id'' (igraph_prepare_model_stats df) = has_column ''model_id'' df"
  by (simp add: igraph_prepare_model_stats_def derive_percentage_correct_def Let_def
      has_column_assign_column)

lemma load_db_try_fails:
  "load_fails fs (db_path_global s) \<Longrightarrow> \<exists>e s'. load_db_try fs s = Inl (e, s')"
  by (auto simp add: load_fails_def load_db_try_def Let_def has_column_igraph_prepare
      split: sum.splits)

lemma load_db_try_succeeds:
  "\<not> load_fails fs (db_path_global s) \<Longrightarrow> \<exists>s'. load_db_try fs s = Inr s'"
  by (auto simp add: load_fails_def load_db_try_def Let_def has_column_igraph_prepare
      split: sum.splits)

text \<open>
  Claim C2 says that a failed load leaves the previous dataset in place. The handler of
  \<open>load_db\<close> assigns an empty DataFrame to both relations instead: after the three
  models A, B, C were loaded, choosing a file without the tables leaves no model.
\<close>

theorem failed_load_counterexample:
  "load_fails no_tables ''new.db'' \<and>
   rows (df_model_stats_global loaded_app) = [stat ''A'' 80, stat ''B'' 60, stat ''C'' 90] \<and>
   rows (df_model_stats_global (load_db no_tables ''new.db'' loaded_app)) = [] \<and>
   rows (df_benchmark_runs_global (load_db no_tables ''new.db'' loaded_app)) = []"
  by (simp add: load_fails_def no_tables_def load_db_def load_db_try_def loaded_app_def
      abc_stats_def empty_frame_def)

text \<open>
  Claim C2, as amended: when the load fails, both relations are empty afterwards, whatever
  was loaded before, and the status label says so; the previous dataset stays in place
  only when the file dialog is cancelled, which leaves the whole state as it was.
\<close>

theorem failed_load_empties_dataset:
  "(filepath \<noteq> [] \<and> load_fails fs filepath \<longrightarrow>
      df_model_stats_global (load_db fs filepath s) = empty_frame \<and>
      df_benchmark_runs_global (load_db fs filepath s) = empty_frame \<and>
      db_status_label (load_db fs filepath s) = ''Error loading DB.'') \<and>
   load_db fs [] s = s"
proof (intro conjI impI)
  assume a: "filepath \<noteq> [] \<and> load_fails fs filepath"
  then have "load_fails fs (db_path_global (s\<lparr>db_path_global := filepath\<rparr>))" by simp
  from load_db_try_fails[OF this] obtain e s'
    where "load_db_try fs (s\<lparr>db_path_global := filepath\<rparr>) = Inl (e, s')" by blast
  with a show "df_model_stats_global (load_db fs filepath s) = empty_frame"
    and "df_benchmark_runs_global (load_db fs filepath s) = empty_frame"
    and "db_status_label (load_db fs filepath s) = ''Error loading DB.''"
    by (simp_all add: load_db_def)
next
  show "load_db fs [] s = s" by (simp add: load_db_def)
qed

theorem failed_load_empties_dataset_witness:
  "df_model_stats_global (load_db no_tables ''new.db'' loaded_app) = empty_frame \<and>
   df_benchmark_runs_global (load_db no_tables ''new.db'' loaded_app) = empty_frame \<and>
   db_status_label (load_db no_tables ''new.db'' loaded_app) = ''Error loading DB.'' \<and>
   load_db no_tables [] loaded_app = loaded_app"
proof -
  have f: "''new.db'' \<noteq> [] \<and> load_fails no_tables ''new.db''"
    by (simp add: load_fails_def no_tables_def)
  show ?thesis
    using failed_load_empties_dataset[of "''new.db''" no_tables loaded_app] f by blast
qed

subsection \<open>Chart calls and the session's dataset\<close>













subsection \<open>The batch run\<close>

lemma attempts_append [simp]: "attempts (xs @ ys) = attempts xs @ attempts ys"
  by (simp add: attempts_def)

lemma attempts_Print [simp]: "attempts (Print s # xs) = attempts xs"
  by (simp add: attempts_def)

lemma attempts_Nil [simp]: "attempts [] = []"
  by (simp add: attempts_def)

lemma attempts_startup [simp]: "attempts (startup w) = []"
  by (simp add: startup_def)





end
